theory Spec2Isabelle
  imports Main "HOL-Library.Word"
begin

unbundle bit_operations_syntax

section \<open>The MS4525DO / MS4515DO airspeed driver (ms4525\_airspeed.cpp)\<close>

text \<open>
  The driver is a two-phase polling loop: \<open>RunImpl\<close> is called by a work queue, either sends
  the one-byte measurement command (\<open>measure\<close>) or reads and decodes the four-byte answer
  (\<open>collect\<close>), and tells the work queue when to call it again. The model passes the
  object's fields as a record, takes what the bus and the clock deliver as inputs of each
  call, and returns the scheduling request together with the new fields.
\<close>

subsection \<open>Machine types and constants\<close>

type_synonym u8 = "8 word"
type_synonym i16 = "16 word"
  \<comment> \<open>\<open>int16_t\<close>; its value is read with \<open>sint\<close>\<close>
type_synonym c_int = "32 word"
  \<comment> \<open>\<open>int\<close> of the integer promotions, 32 bits wide on the driver's targets\<close>
type_synonym hrt_abstime = "64 word"

definition DEVICE_TYPE_MS4515 :: int where
  "DEVICE_TYPE_MS4515 = 4515"

definition DEVICE_TYPE_MS4525 :: int where
  "DEVICE_TYPE_MS4525 = 4525"

definition I2C_ADDRESS_MS4515DO :: int where
  "I2C_ADDRESS_MS4515DO = 0x46"

definition I2C_ADDRESS_MS4525DO :: int where
  "I2C_ADDRESS_MS4525DO = 0x28"

definition MEAS_RATE :: int where
  "MEAS_RATE = 100"

definition CONVERSION_INTERVAL :: int where
  "CONVERSION_INTERVAL = 1000000 div MEAS_RATE"

text \<open>
  Three constants come from system headers that are not part of the driver's file: \<open>OK\<close>
  and \<open>PX4_OK\<close> are 0, and \<open>EAGAIN\<close> is 11 in the \<open>errno.h\<close> of NuttX and of Linux.
\<close>

definition OK :: int where
  "OK = 0"

definition PX4_OK :: int where
  "PX4_OK = 0"

definition EAGAIN :: int where
  "EAGAIN = 11"

subsection \<open>The published report and the driver object\<close>

text \<open>
  \<open>sensor_differential_pressure_s\<close>. The fields \<open>differential_pressure_pa\<close> and
  \<open>temperature\<close> are binary32 values that the driver computes from the two decoded counts
  and from nothing else (lines 180 to 196); the record keeps the two counts they are
  computed from, \<open>report_dp_raw\<close> and \<open>report_dT_raw\<close>, and leaves the floating-point
  arithmetic out.
\<close>

record sensor_differential_pressure_s =
  timestamp_sample :: hrt_abstime
  device_id :: "32 word"
  report_dp_raw :: i16
  report_dT_raw :: i16
  error_count :: nat
  timestamp :: hrt_abstime

text \<open>
  The fields of \<open>MEASAirspeed\<close>. \<open>differential_pressure_pub\<close> is the publication: the list of
  the reports handed to it, oldest first. \<open>comms_errors\<close> is the event counter
  \<open>_comms_errors\<close>. The elapsed-time counter \<open>_sample_perf\<close> has no effect on any other field
  and is left out. \<open>get_device_id\<close> is the field of the base class.
\<close>

record MEASAirspeed =
  sensor_ok :: bool
  measure_interval :: int
  collect_phase :: bool
  conversion_interval :: nat
  dp_raw_prev :: i16
  dT_raw_prev :: i16
  differential_pressure_pub :: "sensor_differential_pressure_s list"
  comms_errors :: nat
  get_device_id :: "32 word"

text \<open>The object as the constructor and the member initialisers leave it.\<close>

definition MEASAirspeed_init :: "32 word \<Rightarrow> MEASAirspeed" where
  "MEASAirspeed_init dev =
     \<lparr>sensor_ok = False, measure_interval = 0, collect_phase = False,
      conversion_interval = 0, dp_raw_prev = 0, dT_raw_prev = 0,
      differential_pressure_pub = [], comms_errors = 0, get_device_id = dev\<rparr>"

text \<open>
  Modelled from the spec: the performance-counter library (\<open>perf_count\<close>,
  \<open>perf_event_count\<close>) is not part of the driver's file. The spec calls \<open>_comms_errors\<close> a
  monotonic error counter that each failure increments and whose value is surfaced in the
  published sample: \<open>perf_count\<close> adds one to a natural number, \<open>perf_event_count\<close> reads it.
\<close>

definition perf_count :: "MEASAirspeed \<Rightarrow> MEASAirspeed" where
  "perf_count s = s\<lparr>comms_errors := comms_errors s + 1\<rparr>"

definition perf_event_count :: "MEASAirspeed \<Rightarrow> nat" where
  "perf_event_count s = comms_errors s"

text \<open>
  Modelled from the spec: the publication class is not part of the driver's file. The spec
  calls the publish sink an append-only broadcast channel: \<open>publish\<close> appends the report to
  the list.
\<close>

definition publish :: "sensor_differential_pressure_s \<Rightarrow> MEASAirspeed \<Rightarrow> MEASAirspeed" where
  "publish report s = s\<lparr>differential_pressure_pub := differential_pressure_pub s @ [report]\<rparr>"

subsection \<open>measure\<close>

text \<open>
  \<open>measure\<close> sends the command byte 0. The result of the bus transfer is the input
  \<open>ret\<close>; a result other than \<open>OK\<close> is counted.
\<close>

definition measure :: "MEASAirspeed \<Rightarrow> int \<Rightarrow> int \<times> MEASAirspeed" where
  "measure s ret = (if OK \<noteq> ret then (ret, perf_count s) else (ret, s))"

subsection \<open>collect\<close>

text \<open>The buffer \<open>uint8_t val[4]\<close> as the transfer leaves it.\<close>

record val4 =
  val0 :: u8
  val1 :: u8
  val2 :: u8
  val3 :: u8

text \<open>
  What one call of \<open>collect\<close> receives from outside: the result of the bus read, the buffer
  after it, and the two readings of the clock.
\<close>

record collect_io =
  rx_ret :: int
  rx_val :: val4
  t_sample :: hrt_abstime
  t_publish :: hrt_abstime

text \<open>
  \<open>uint8_t status = (val[0] & 0xC0) >> 6\<close>: the byte is promoted to \<open>int\<close>, masked and
  shifted there, and the result is narrowed to a byte.
\<close>

definition status_of :: "val4 \<Rightarrow> u8" where
  "status_of val = ucast (drop_bit 6 ((ucast (val0 val) :: c_int) AND 0xC0))"

text \<open>
  \<open>int16_t dp_raw = (0x3FFF & ((val[0] << 8) + val[1]))\<close> and
  \<open>int16_t dT_raw = (0xFFE0 & ((val[2] << 8) + val[3])) >> 5\<close>: the arithmetic is on \<open>int\<close>,
  the result is narrowed to 16 bits. All intermediate values are non-negative, so the right
  shift is the logical one.
\<close>

definition dp_raw_of :: "val4 \<Rightarrow> i16" where
  "dp_raw_of val =
     ucast ((0x3FFF :: c_int) AND (push_bit 8 (ucast (val0 val)) + ucast (val1 val)))"

definition dT_raw_of :: "val4 \<Rightarrow> i16" where
  "dT_raw_of val =
     ucast (drop_bit 5 ((0xFFE0 :: c_int) AND (push_bit 8 (ucast (val2 val)) + ucast (val3 val))))"

definition collect :: "MEASAirspeed \<Rightarrow> collect_io \<Rightarrow> int \<times> MEASAirspeed" where
  "collect s io =
     (let timestamp_sample' = t_sample io;
          ret = rx_ret io;
          val = rx_val io
      in
      if ret < 0 then (ret, perf_count s)
      else
        let status = status_of val in
        if status = 1 then (- EAGAIN, s)
        else if status = 2 then (- EAGAIN, s)
        else if status = 3 then (- EAGAIN, perf_count s)
        else
          let dp_raw = dp_raw_of val;
              dT_raw = dT_raw_of val
          in
          if dT_raw = 2047 then (- EAGAIN, perf_count s)
          else if dp_raw \<noteq> dp_raw_prev s \<and> dT_raw \<noteq> dT_raw_prev s then
            let s1 = s\<lparr>dp_raw_prev := dp_raw, dT_raw_prev := dT_raw\<rparr>;
                report = \<lparr>timestamp_sample = timestamp_sample',
                          device_id = get_device_id s1,
                          report_dp_raw = dp_raw,
                          report_dT_raw = dT_raw,
                          error_count = perf_event_count s1,
                          timestamp = t_publish io\<rparr>
            in (PX4_OK, publish report s1)
          else (PX4_OK, s))"

subsection \<open>RunImpl\<close>

text \<open>What \<open>RunImpl\<close> asks of the work queue before it returns.\<close>

datatype schedule = ScheduleNow | ScheduleDelayed int

text \<open>
  What one call of \<open>RunImpl\<close> receives from outside: the inputs of \<open>collect\<close>, used when the
  call starts in the collect phase, and the result of the command transfer of \<open>measure\<close>,
  used when the call reaches the measurement phase.
\<close>

record run_io =
  collect_in :: collect_io
  measure_ret :: int

definition measurement_phase :: "MEASAirspeed \<Rightarrow> run_io \<Rightarrow> MEASAirspeed \<times> schedule" where
  "measurement_phase s io =
     (let (ret, s1) = measure s (measure_ret io);
          s2 = s1\<lparr>sensor_ok := (ret = OK)\<rparr>;
          s3 = s2\<lparr>collect_phase := True\<rparr>
      in (s3, ScheduleDelayed CONVERSION_INTERVAL))"

definition RunImpl :: "MEASAirspeed \<Rightarrow> run_io \<Rightarrow> MEASAirspeed \<times> schedule" where
  "RunImpl s io =
     (if collect_phase s then
        let (ret, s1) = collect s (collect_in io) in
        if OK \<noteq> ret then
          (s1\<lparr>collect_phase := False, sensor_ok := False\<rparr>, ScheduleNow)
        else
          let s2 = s1\<lparr>collect_phase := False\<rparr> in
          if measure_interval s2 > CONVERSION_INTERVAL then
            (s2, ScheduleDelayed (measure_interval s2 - CONVERSION_INTERVAL))
          else measurement_phase s2 io
      else measurement_phase s io)"

text \<open>
  The work queue calls \<open>RunImpl\<close> again and again; \<open>run_steps\<close> is a sequence of calls, one
  for each element of the list of inputs.
\<close>

fun run_steps :: "MEASAirspeed \<Rightarrow> run_io list \<Rightarrow> MEASAirspeed" where
  "run_steps s [] = s"
| "run_steps s (io # ios) = run_steps (fst (RunImpl s io)) ios"

text \<open>
  The reports that one call of \<open>collect\<close> adds to the publication: what the list holds
  after the call beyond what it held before.
\<close>

definition published_by :: "MEASAirspeed \<Rightarrow> collect_io \<Rightarrow> sensor_differential_pressure_s list" where
  "published_by s io =
     drop (length (differential_pressure_pub s)) (differential_pressure_pub (snd (collect s io)))"

subsection \<open>ms4525\_airspeed\_main\<close>

text \<open>
  The command line as \<open>main\<close> sees it: the options that \<open>cli.getopt\<close> returns in turn, each
  with its argument, and the verb that \<open>cli.optarg\<close> returns after the last option (none
  when the command line has no verb). \<open>atoi\<close> is the function of the C library and is a
  parameter of the model.
\<close>

fun parse_device_type :: "(string \<Rightarrow> int) \<Rightarrow> int \<Rightarrow> (char \<times> string) list \<Rightarrow> int" where
  "parse_device_type atoi device_type [] = device_type"
| "parse_device_type atoi device_type ((ch, optarg) # rest) =
     (if ch = CHR ''T'' then parse_device_type atoi (atoi optarg) rest
      else parse_device_type atoi device_type rest)"

text \<open>
  What \<open>main\<close> ends in: the usage text and the result \<open>-1\<close>, or one of the three module
  functions, called with the bus address that \<open>main\<close> has stored in \<open>cli.i2c_address\<close>.
\<close>

datatype main_action =
  PrintUsage
  | ModuleStart int
  | ModuleStop int
  | ModuleStatus int

definition ms4525_airspeed_main ::
    "(string \<Rightarrow> int) \<Rightarrow> (char \<times> string) list \<Rightarrow> string option \<Rightarrow> main_action" where
  "ms4525_airspeed_main atoi opts verb =
     (let device_type = parse_device_type atoi DEVICE_TYPE_MS4525 opts in
      case verb of
        None \<Rightarrow> PrintUsage
      | Some v \<Rightarrow>
          let i2c_address =
                (if device_type = DEVICE_TYPE_MS4525 then I2C_ADDRESS_MS4525DO
                 else I2C_ADDRESS_MS4515DO)
          in
          if v = ''start'' then ModuleStart i2c_address
          else if v = ''stop'' then ModuleStop i2c_address
          else if v = ''status'' then ModuleStatus i2c_address
          else PrintUsage)"

text \<open>
  The conversion that \<open>atoi\<close> performs on a string whose number fits an \<open>int\<close>: white space is
  skipped, a sign is read, and the decimal digits up to the first other character give the
  value; a string with no digit there gives 0.
\<close>

definition isspace :: "char \<Rightarrow> bool" where
  "isspace c = (c \<in> set [CHR '' '', CHR 0x09, CHR 0x0A, CHR 0x0B, CHR 0x0C, CHR 0x0D])"

definition isdigit :: "char \<Rightarrow> bool" where
  "isdigit c = (48 \<le> (of_char c :: nat) \<and> (of_char c :: nat) \<le> 57)"

fun digits_value :: "int \<Rightarrow> string \<Rightarrow> int" where
  "digits_value acc [] = acc"
| "digits_value acc (c # cs) =
     (if isdigit c then digits_value (10 * acc + (of_char c - 48)) cs else acc)"

definition c_atoi :: "string \<Rightarrow> int" where
  "c_atoi str =
     (case dropWhile isspace str of
        [] \<Rightarrow> 0
      | c # cs \<Rightarrow>
          if c = CHR ''-'' then - digits_value 0 cs
          else if c = CHR ''+'' then digits_value 0 cs
          else digits_value 0 (c # cs))"

subsection \<open>The decoding as the register protocol describes it\<close>

text \<open>
  The protocol's own words, to compare the driver's expressions with: the 16-bit word with
  the first byte as its high half; the pressure count is its 14 low bits (mask \<open>0x3FFF\<close>);
  the temperature count is the word masked with \<open>0xFFE0\<close> and shifted right by 5.
\<close>

definition be16 :: "u8 \<Rightarrow> u8 \<Rightarrow> 16 word" where
  "be16 hi lo = word_cat hi lo"

definition spec_pressure_count :: "val4 \<Rightarrow> 16 word" where
  "spec_pressure_count val = be16 (val0 val) (val1 val) AND 0x3FFF"

definition spec_temperature_count :: "val4 \<Rightarrow> 16 word" where
  "spec_temperature_count val = drop_bit 5 (be16 (val2 val) (val3 val) AND 0xFFE0)"

subsection \<open>Sample inputs\<close>

text \<open>
  Concrete responses and driver objects at which the properties below are evaluated: an
  accepted response, one for each status other than Normal, one with the saturated
  temperature count; a driver in the COLLECT phase, and one with a poll interval of 50000
  microseconds.
\<close>

definition good_val :: val4 where
  "good_val = \<lparr>val0 = 0x12, val1 = 0x34, val2 = 0xAB, val3 = 0xCD\<rparr>"

definition reserved_val :: val4 where
  "reserved_val = \<lparr>val0 = 0x52, val1 = 0x34, val2 = 0xAB, val3 = 0xCD\<rparr>"

definition stale_val :: val4 where
  "stale_val = \<lparr>val0 = 0x92, val1 = 0x34, val2 = 0xAB, val3 = 0xCD\<rparr>"

definition fault_val :: val4 where
  "fault_val = \<lparr>val0 = 0xD2, val1 = 0x34, val2 = 0xAB, val3 = 0xCD\<rparr>"

definition saturated_val :: val4 where
  "saturated_val = \<lparr>val0 = 0x12, val1 = 0x34, val2 = 0xFF, val3 = 0xE3\<rparr>"

definition rx :: "int \<Rightarrow> val4 \<Rightarrow> collect_io" where
  "rx ret val = \<lparr>rx_ret = ret, rx_val = val, t_sample = 1000, t_publish = 1001\<rparr>"

definition step_in :: "int \<Rightarrow> val4 \<Rightarrow> int \<Rightarrow> run_io" where
  "step_in ret val mret = \<lparr>collect_in = rx ret val, measure_ret = mret\<rparr>"

definition collecting :: MEASAirspeed where
  "collecting = (MEASAirspeed_init 7)\<lparr>collect_phase := True, sensor_ok := True\<rparr>"

definition slow_poll :: MEASAirspeed where
  "slow_poll = collecting\<lparr>measure_interval := 50000\<rparr>"

section \<open>Properties\<close>

subsection \<open>Decoding\<close>

text \<open>
  The driver adds the two bytes on \<open>int\<close> and narrows the masked result to \<open>int16_t\<close>; the
  lemmas below show that this is the 16-bit big-endian word of the protocol, and give the
  counts as numbers.
\<close>

lemma mask_3FFF: "(0x3FFF :: 'a::len word) = mask 14"
  by (simp add: mask_eq_exp_minus_1)

lemma mask_FFE0: "(0xFFE0 :: 'a::len word) = push_bit 5 (mask 11)"
  by (simp add: mask_eq_exp_minus_1 push_bit_eq_mult)

lemma mask_C0: "(0xC0 :: 'a::len word) = push_bit 6 (mask 2)"
  by (simp add: mask_eq_exp_minus_1 push_bit_eq_mult)

lemma int_sum_is_cat: "push_bit 8 (ucast a) + ucast b = (word_cat a b :: c_int)" for a b :: u8
  by (simp add: word_cat_eq)

lemma narrow_pressure:
  "ucast ((0x3FFF :: c_int) AND word_cat a b) = (word_cat a b :: 16 word) AND 0x3FFF"
  for a b :: u8
  unfolding mask_3FFF by (rule bit_word_eqI) (auto simp: bit_simps)

lemma narrow_temperature:
  "ucast (drop_bit 5 ((0xFFE0 :: c_int) AND word_cat a b)) =
   drop_bit 5 ((word_cat a b :: 16 word) AND 0xFFE0)"
  for a b :: u8
  unfolding mask_FFE0 by (rule bit_word_eqI) (auto simp: bit_simps)

lemma dp_raw_of_spec: "dp_raw_of val = spec_pressure_count val"
  by (simp only: dp_raw_of_def spec_pressure_count_def be16_def int_sum_is_cat narrow_pressure)

lemma dT_raw_of_spec: "dT_raw_of val = spec_temperature_count val"
  by (simp only: dT_raw_of_def spec_temperature_count_def be16_def int_sum_is_cat
      narrow_temperature)

lemma uint_be16: "uint (be16 a b) = 256 * uint a + uint b"
proof -
  have a: "uint a < 256" and b: "uint b < 256"
    using uint_bounded [of a] uint_bounded [of b] by simp_all
  have "concat_bit 8 (uint b) (uint a) = 256 * uint a + uint b"
    using b by (simp add: concat_bit_eq take_bit_int_eq_self push_bit_eq_mult)
  moreover have "take_bit 16 (256 * uint a + uint b) = 256 * uint a + uint b"
    using a b by (intro take_bit_int_eq_self) simp_all
  ultimately show ?thesis
    unfolding be16_def word_cat_eq' by (simp only: uint_word_of_int_eq len_bit0 len_num1) simp
qed

lemma uint_and_3FFF: "uint ((w :: 16 word) AND 0x3FFF) = uint w mod 16384"
  unfolding mask_3FFF by (simp add: uint_mod_distrib flip: take_bit_eq_mask add: take_bit_eq_mod)

lemma drop_masked: "drop_bit 5 ((w :: 16 word) AND 0xFFE0) = drop_bit 5 w"
  unfolding mask_FFE0 by (rule bit_word_eqI) (auto simp: bit_simps dest: bit_imp_le_length)

lemma uint_drop_5: "uint (drop_bit 5 ((w :: 16 word) AND 0xFFE0)) = uint w div 32"
  unfolding drop_masked by (simp add: drop_bit_eq_div uint_div_distrib)

lemma sint_small:
  fixes w :: "16 word"
  assumes "uint w < 32768"
  shows "sint w = uint w"
proof -
  have "- 32768 \<le> uint w"
    using uint_nonnegative [of w] by linarith
  then have lo: "- (2 ^ 15) \<le> uint w"
    by simp
  have hi: "uint w < 2 ^ 15"
    using assms by simp
  have "signed_take_bit 15 (uint w) = uint w"
    by (rule signed_take_bit_int_eq_self [OF lo hi])
  then show ?thesis by (simp add: sint_uint)
qed

lemma uint_dp_raw_of:
  "uint (dp_raw_of val) = (256 * uint (val0 val) + uint (val1 val)) mod 16384"
  by (simp only: dp_raw_of_spec spec_pressure_count_def uint_and_3FFF uint_be16)

lemma uint_dT_raw_of:
  "uint (dT_raw_of val) = (256 * uint (val2 val) + uint (val3 val)) div 32"
  by (simp only: dT_raw_of_spec spec_temperature_count_def uint_drop_5 uint_be16)

lemma dT_raw_of_bound: "uint (dT_raw_of val) < 2048"
proof -
  have "uint (val2 val) < 256" and "uint (val3 val) < 256"
    using uint_bounded [of "val2 val"] uint_bounded [of "val3 val"] by simp_all
  then show ?thesis unfolding uint_dT_raw_of by simp
qed

lemma dp_raw_of_bound: "uint (dp_raw_of val) < 16384"
  unfolding uint_dp_raw_of by simp

text \<open>
  Claim C4. For every four-byte response, the pressure count that \<open>collect\<close> decodes is the
  14 low bits (mask \<open>0x3FFF\<close>) of the big-endian 16-bit word of bytes 0 and 1, and the
  temperature count is the big-endian word of bytes 2 and 3 masked with \<open>0xFFE0\<close> and shifted
  right by 5, a value of 11 bits. As numbers: the first is the word modulo \<open>2 ^ 14\<close>, the
  second the word divided by \<open>2 ^ 5\<close>, and both are non-negative as \<open>int16_t\<close>. Both counts
  depend on the bytes alone, so two reads that deliver the same bytes decode to the same
  counts.
\<close>

theorem decode_counts:
  "dp_raw_of val = spec_pressure_count val \<and>
   dT_raw_of val = spec_temperature_count val \<and>
   sint (dp_raw_of val) = (256 * uint (val0 val) + uint (val1 val)) mod 2 ^ 14 \<and>
   sint (dT_raw_of val) = (256 * uint (val2 val) + uint (val3 val)) div 2 ^ 5 \<and>
   0 \<le> sint (dp_raw_of val) \<and> sint (dp_raw_of val) < 2 ^ 14 \<and>
   0 \<le> sint (dT_raw_of val) \<and> sint (dT_raw_of val) < 2 ^ 11 \<and>
   (rx_val io = rx_val io' \<longrightarrow>
      dp_raw_of (rx_val io) = dp_raw_of (rx_val io') \<and>
      dT_raw_of (rx_val io) = dT_raw_of (rx_val io'))"
proof -
  have p: "sint (dp_raw_of val) = uint (dp_raw_of val)"
    using dp_raw_of_bound [of val] by (intro sint_small) simp
  have t: "sint (dT_raw_of val) = uint (dT_raw_of val)"
    using dT_raw_of_bound [of val] by (intro sint_small) simp
  have "sint (dp_raw_of val) = (256 * uint (val0 val) + uint (val1 val)) mod 2 ^ 14"
    by (simp add: p uint_dp_raw_of)
  moreover have "sint (dT_raw_of val) = (256 * uint (val2 val) + uint (val3 val)) div 2 ^ 5"
    by (simp add: t uint_dT_raw_of)
  moreover have "0 \<le> sint (dp_raw_of val) \<and> sint (dp_raw_of val) < 2 ^ 14"
    using dp_raw_of_bound [of val] by (simp add: p)
  moreover have "0 \<le> sint (dT_raw_of val) \<and> sint (dT_raw_of val) < 2 ^ 11"
    using dT_raw_of_bound [of val] by (simp add: t)
  ultimately show ?thesis
    using dp_raw_of_spec [of val] dT_raw_of_spec [of val] by simp
qed

theorem decode_counts_witness:
  "rx_val \<lparr>rx_ret = 0, rx_val = \<lparr>val0 = 0x12, val1 = 0x34, val2 = 0xAB, val3 = 0xCD\<rparr>,
            t_sample = 1, t_publish = 2\<rparr> =
   rx_val \<lparr>rx_ret = 5, rx_val = \<lparr>val0 = 0x12, val1 = 0x34, val2 = 0xAB, val3 = 0xCD\<rparr>,
            t_sample = 7, t_publish = 9\<rparr> \<and>
   dp_raw_of \<lparr>val0 = 0x12, val1 = 0x34, val2 = 0xAB, val3 = 0xCD\<rparr> =
     spec_pressure_count \<lparr>val0 = 0x12, val1 = 0x34, val2 = 0xAB, val3 = 0xCD\<rparr> \<and>
   dT_raw_of \<lparr>val0 = 0x12, val1 = 0x34, val2 = 0xAB, val3 = 0xCD\<rparr> =
     spec_temperature_count \<lparr>val0 = 0x12, val1 = 0x34, val2 = 0xAB, val3 = 0xCD\<rparr> \<and>
   sint (dp_raw_of \<lparr>val0 = 0x12, val1 = 0x34, val2 = 0xAB, val3 = 0xCD\<rparr>) = 4660 \<and>
   sint (dT_raw_of \<lparr>val0 = 0x12, val1 = 0x34, val2 = 0xAB, val3 = 0xCD\<rparr>) = 1374"
  using decode_counts [of "\<lparr>val0 = 0x12, val1 = 0x34, val2 = 0xAB, val3 = 0xCD\<rparr>"
      "\<lparr>rx_ret = 0, rx_val = \<lparr>val0 = 0x12, val1 = 0x34, val2 = 0xAB, val3 = 0xCD\<rparr>,
        t_sample = 1, t_publish = 2\<rparr>"
      "\<lparr>rx_ret = 5, rx_val = \<lparr>val0 = 0x12, val1 = 0x34, val2 = 0xAB, val3 = 0xCD\<rparr>,
        t_sample = 7, t_publish = 9\<rparr>"]
  by auto

subsection \<open>The status bits\<close>

text \<open>
  The status that \<open>collect\<close> switches on is the top two bits of byte 0, so it is one of the
  four values that the \<open>switch\<close> lists.
\<close>

lemma status_of_eq: "status_of val = drop_bit 6 (val0 val)"
  unfolding status_of_def mask_C0
  by (rule bit_word_eqI) (auto simp: bit_simps dest: bit_imp_le_length)

lemma unat_status_of: "unat (status_of val) = unat (val0 val) div 64"
  unfolding status_of_eq by (simp add: drop_bit_eq_div unat_div_distrib)

lemma status_of_cases:
  "status_of val = 0 \<or> status_of val = 1 \<or> status_of val = 2 \<or> status_of val = 3"
proof -
  have "unat (val0 val) < 256"
    using unsigned_less [of "val0 val", where ?'a = nat] by simp
  then have "unat (status_of val) < 4"
    unfolding unat_status_of by simp
  then have "unat (status_of val) = 0 \<or> unat (status_of val) = 1 \<or>
      unat (status_of val) = 2 \<or> unat (status_of val) = 3"
    by linarith
  moreover have "w = of_nat n" if "unat w = n" for w :: u8 and n
    using that by auto
  ultimately have "status_of val = of_nat 0 \<or> status_of val = of_nat 1 \<or>
      status_of val = of_nat 2 \<or> status_of val = of_nat 3"
    by blast
  then show ?thesis by simp
qed

subsection \<open>The seven ways through collect\<close>

text \<open>
  One lemma for each path of \<open>collect\<close>, and a case rule that says that the paths cover every
  input.
\<close>

lemma collect_transport:
  "rx_ret io < 0 \<Longrightarrow> collect s io = (rx_ret io, perf_count s)"
  by (simp add: collect_def)

lemma collect_reserved:
  "0 \<le> rx_ret io \<Longrightarrow> status_of (rx_val io) = 1 \<Longrightarrow> collect s io = (- EAGAIN, s)"
  by (simp add: collect_def)

lemma collect_stale:
  "0 \<le> rx_ret io \<Longrightarrow> status_of (rx_val io) = 2 \<Longrightarrow> collect s io = (- EAGAIN, s)"
  by (simp add: collect_def)

lemma collect_fault:
  "0 \<le> rx_ret io \<Longrightarrow> status_of (rx_val io) = 3 \<Longrightarrow>
   collect s io = (- EAGAIN, perf_count s)"
  by (simp add: collect_def)

lemma collect_saturated:
  "0 \<le> rx_ret io \<Longrightarrow> status_of (rx_val io) = 0 \<Longrightarrow> dT_raw_of (rx_val io) = 2047 \<Longrightarrow>
   collect s io = (- EAGAIN, perf_count s)"
  by (simp add: collect_def)

lemma collect_suppressed:
  "0 \<le> rx_ret io \<Longrightarrow> status_of (rx_val io) = 0 \<Longrightarrow> dT_raw_of (rx_val io) \<noteq> 2047 \<Longrightarrow>
   dp_raw_of (rx_val io) = dp_raw_prev s \<or> dT_raw_of (rx_val io) = dT_raw_prev s \<Longrightarrow>
   collect s io = (PX4_OK, s)"
  by (auto simp add: collect_def)

lemma collect_accepted:
  "0 \<le> rx_ret io \<Longrightarrow> status_of (rx_val io) = 0 \<Longrightarrow> dT_raw_of (rx_val io) \<noteq> 2047 \<Longrightarrow>
   dp_raw_of (rx_val io) \<noteq> dp_raw_prev s \<Longrightarrow> dT_raw_of (rx_val io) \<noteq> dT_raw_prev s \<Longrightarrow>
   collect s io =
     (PX4_OK,
      s\<lparr>dp_raw_prev := dp_raw_of (rx_val io), dT_raw_prev := dT_raw_of (rx_val io),
        differential_pressure_pub := differential_pressure_pub s @
          [\<lparr>timestamp_sample = t_sample io, device_id = get_device_id s,
            report_dp_raw = dp_raw_of (rx_val io), report_dT_raw = dT_raw_of (rx_val io),
            error_count = comms_errors s, timestamp = t_publish io\<rparr>]\<rparr>)"
  by (simp add: collect_def Let_def publish_def perf_event_count_def)

lemma collect_cases [case_names transport reserved stale fault saturated suppressed accepted]:
  fixes io :: collect_io and s :: MEASAirspeed
  obtains
    "rx_ret io < 0"
  | "0 \<le> rx_ret io" "status_of (rx_val io) = 1"
  | "0 \<le> rx_ret io" "status_of (rx_val io) = 2"
  | "0 \<le> rx_ret io" "status_of (rx_val io) = 3"
  | "0 \<le> rx_ret io" "status_of (rx_val io) = 0" "dT_raw_of (rx_val io) = 2047"
  | "0 \<le> rx_ret io" "status_of (rx_val io) = 0" "dT_raw_of (rx_val io) \<noteq> 2047"
    "dp_raw_of (rx_val io) = dp_raw_prev s \<or> dT_raw_of (rx_val io) = dT_raw_prev s"
  | "0 \<le> rx_ret io" "status_of (rx_val io) = 0" "dT_raw_of (rx_val io) \<noteq> 2047"
    "dp_raw_of (rx_val io) \<noteq> dp_raw_prev s" "dT_raw_of (rx_val io) \<noteq> dT_raw_prev s"
  using status_of_cases [of "rx_val io"] by (cases "rx_ret io < 0") auto

lemma EAGAIN_not_OK: "- EAGAIN \<noteq> OK" "- EAGAIN \<noteq> PX4_OK" "PX4_OK = OK"
  by (simp_all add: EAGAIN_def OK_def PX4_OK_def)

subsection \<open>The sample inputs\<close>

text \<open>What the sample responses decode to, and the fields of the sample objects.\<close>

lemma sample_status:
  "status_of good_val = 0" "status_of reserved_val = 1" "status_of stale_val = 2"
  "status_of fault_val = 3" "status_of saturated_val = 0"
  by (simp_all add: status_of_def good_val_def reserved_val_def stale_val_def fault_val_def
      saturated_val_def)

lemma sample_counts:
  "dp_raw_of good_val = 4660" "dT_raw_of good_val = 1374" "dT_raw_of saturated_val = 2047"
  by (simp_all add: dp_raw_of_def dT_raw_of_def good_val_def saturated_val_def)

lemma rx_simps: "rx_ret (rx ret val) = ret" "rx_val (rx ret val) = val"
  "t_sample (rx ret val) = 1000" "t_publish (rx ret val) = 1001"
  by (simp_all add: rx_def)

lemma step_in_simps:
  "collect_in (step_in ret val mret) = rx ret val" "measure_ret (step_in ret val mret) = mret"
  by (simp_all add: step_in_def)

lemma collecting_simps:
  "collect_phase collecting" "sensor_ok collecting" "dp_raw_prev collecting = 0"
  "dT_raw_prev collecting = 0" "comms_errors collecting = 0"
  "differential_pressure_pub collecting = []" "measure_interval collecting = 0"
  by (simp_all add: collecting_def MEASAirspeed_init_def)

lemma slow_poll_simps:
  "collect_phase slow_poll" "measure_interval slow_poll = 50000"
  by (simp_all add: slow_poll_def collecting_def MEASAirspeed_init_def)

subsection \<open>A failing collect\<close>

lemma collect_fails_iff:
  "fst (collect s io) \<noteq> OK \<longleftrightarrow>
   rx_ret io < 0 \<or> status_of (rx_val io) \<noteq> 0 \<or> dT_raw_of (rx_val io) = 2047"
proof (cases rule: collect_cases [where io = io and s = s])
  case transport
  then show ?thesis by (simp add: collect_transport OK_def)
next
  case reserved
  then show ?thesis by (simp add: collect_reserved EAGAIN_not_OK)
next
  case stale
  then show ?thesis by (simp add: collect_stale EAGAIN_not_OK)
next
  case fault
  then show ?thesis by (simp add: collect_fault EAGAIN_not_OK)
next
  case saturated
  then show ?thesis by (simp add: collect_saturated EAGAIN_not_OK)
next
  case suppressed
  then show ?thesis by (simp add: collect_suppressed EAGAIN_not_OK)
next
  case accepted
  then show ?thesis by (simp add: collect_accepted EAGAIN_not_OK)
qed

lemma collect_failure_keeps:
  assumes "fst (collect s io) \<noteq> OK"
  shows "dp_raw_prev (snd (collect s io)) = dp_raw_prev s"
    and "dT_raw_prev (snd (collect s io)) = dT_raw_prev s"
    and "differential_pressure_pub (snd (collect s io)) = differential_pressure_pub s"
proof -
  have "snd (collect s io) = s \<or> snd (collect s io) = perf_count s"
  proof (cases rule: collect_cases [where io = io and s = s])
    case transport
    then show ?thesis by (simp add: collect_transport)
  next
    case reserved
    then show ?thesis by (simp add: collect_reserved)
  next
    case stale
    then show ?thesis by (simp add: collect_stale)
  next
    case fault
    then show ?thesis by (simp add: collect_fault)
  next
    case saturated
    then show ?thesis by (simp add: collect_saturated)
  next
    case suppressed
    then show ?thesis by (simp add: collect_suppressed)
  next
    case accepted
    with assms show ?thesis by (simp add: collect_accepted EAGAIN_not_OK)
  qed
  then show "dp_raw_prev (snd (collect s io)) = dp_raw_prev s"
    and "dT_raw_prev (snd (collect s io)) = dT_raw_prev s"
    and "differential_pressure_pub (snd (collect s io)) = differential_pressure_pub s"
    by (auto simp: perf_count_def)
qed

text \<open>
  Claim C3. \<open>collect\<close> fails (returns a value other than \<open>OK\<close>) exactly when the bus read
  failed, or the status is not Normal, or the temperature count is 2047; and whenever it
  fails, the previous-sample cache (\<open>_dp_raw_prev\<close>, \<open>_dT_raw_prev\<close>) is left as it was and
  nothing is published.
\<close>

theorem collect_atomic_on_error:
  "(fst (collect s io) \<noteq> OK \<longleftrightarrow>
      rx_ret io < 0 \<or> status_of (rx_val io) \<noteq> 0 \<or> dT_raw_of (rx_val io) = 2047) \<and>
   (fst (collect s io) \<noteq> OK \<longrightarrow>
      dp_raw_prev (snd (collect s io)) = dp_raw_prev s \<and>
      dT_raw_prev (snd (collect s io)) = dT_raw_prev s \<and>
      differential_pressure_pub (snd (collect s io)) = differential_pressure_pub s)"
  using collect_fails_iff [of s io] collect_failure_keeps [of s io] by blast

theorem collect_atomic_on_error_witness:
  "rx_ret (rx (- 5) good_val) < 0 \<and>
   status_of (rx_val (rx 0 fault_val)) \<noteq> 0 \<and>
   dT_raw_of (rx_val (rx 0 saturated_val)) = 2047 \<and>
   fst (collect collecting (rx (- 5) good_val)) \<noteq> OK \<and>
   fst (collect collecting (rx 0 fault_val)) \<noteq> OK \<and>
   fst (collect collecting (rx 0 saturated_val)) \<noteq> OK \<and>
   dp_raw_prev (snd (collect collecting (rx 0 fault_val))) = dp_raw_prev collecting \<and>
   dT_raw_prev (snd (collect collecting (rx 0 fault_val))) = dT_raw_prev collecting \<and>
   differential_pressure_pub (snd (collect collecting (rx 0 fault_val))) =
     differential_pressure_pub collecting \<and>
   differential_pressure_pub (snd (collect collecting (rx (- 5) good_val))) =
     differential_pressure_pub collecting \<and>
   differential_pressure_pub (snd (collect collecting (rx 0 saturated_val))) =
     differential_pressure_pub collecting"
proof -
  have h: "rx_ret (rx (- 5) good_val) < 0" "status_of (rx_val (rx 0 fault_val)) \<noteq> 0"
    "dT_raw_of (rx_val (rx 0 saturated_val)) = 2047"
    by (simp_all add: rx_simps sample_status sample_counts)
  show ?thesis
    using h collect_atomic_on_error [of collecting "rx (- 5) good_val"]
      collect_atomic_on_error [of collecting "rx 0 fault_val"]
      collect_atomic_on_error [of collecting "rx 0 saturated_val"]
    by blast
qed

text \<open>
  Claim C9. A response whose status bits are 01 (Reserved) makes \<open>collect\<close> return
  \<open>-EAGAIN\<close>, which is a failure, without counting an error and without touching the cache
  or the publication: the object is left exactly as it was. A response with status 10
  (Stale) is treated in the same way.
\<close>

theorem collect_reserved_status:
  assumes "0 \<le> rx_ret io" and "status_of (rx_val io) = 1"
  shows "fst (collect s io) = - EAGAIN \<and> - EAGAIN \<noteq> OK \<and>
         comms_errors (snd (collect s io)) = comms_errors s \<and>
         dp_raw_prev (snd (collect s io)) = dp_raw_prev s \<and>
         dT_raw_prev (snd (collect s io)) = dT_raw_prev s \<and>
         differential_pressure_pub (snd (collect s io)) = differential_pressure_pub s \<and>
         snd (collect s io) = s \<and>
         (0 \<le> rx_ret io' \<and> status_of (rx_val io') = 2 \<longrightarrow> collect s io = collect s io')"
proof -
  have r: "collect s io = (- EAGAIN, s)"
    using assms by (rule collect_reserved)
  have "collect s io' = (- EAGAIN, s)" if "0 \<le> rx_ret io'" "status_of (rx_val io') = 2"
    using that by (rule collect_stale)
  with r show ?thesis
    by (simp add: EAGAIN_not_OK)
qed

theorem collect_reserved_status_witness:
  "0 \<le> rx_ret (rx 0 reserved_val) \<and> status_of (rx_val (rx 0 reserved_val)) = 1 \<and>
   0 \<le> rx_ret (rx 0 stale_val) \<and> status_of (rx_val (rx 0 stale_val)) = 2 \<and>
   fst (collect collecting (rx 0 reserved_val)) = - 11 \<and>
   snd (collect collecting (rx 0 reserved_val)) = collecting \<and>
   comms_errors (snd (collect collecting (rx 0 reserved_val))) = 0 \<and>
   collect collecting (rx 0 reserved_val) = collect collecting (rx 0 stale_val)"
proof -
  have h: "0 \<le> rx_ret (rx 0 reserved_val)" "status_of (rx_val (rx 0 reserved_val)) = 1"
    "0 \<le> rx_ret (rx 0 stale_val)" "status_of (rx_val (rx 0 stale_val)) = 2"
    by (simp_all add: rx_simps sample_status)
  show ?thesis
    using h collect_reserved_status [OF h(1,2), of collecting "rx 0 stale_val"]
    by (auto simp add: EAGAIN_def collecting_simps)
qed

subsection \<open>The error counter\<close>

lemma collect_comms_errors:
  "comms_errors (snd (collect s io)) =
   comms_errors s +
   (if rx_ret io < 0 \<or> status_of (rx_val io) = 3 \<or>
       (status_of (rx_val io) = 0 \<and> dT_raw_of (rx_val io) = 2047)
    then 1 else 0)"
proof (cases rule: collect_cases [where io = io and s = s])
  case transport
  then show ?thesis by (simp add: collect_transport perf_count_def)
next
  case reserved
  then show ?thesis by (simp add: collect_reserved)
next
  case stale
  then show ?thesis by (simp add: collect_stale)
next
  case fault
  then show ?thesis by (simp add: collect_fault perf_count_def)
next
  case saturated
  then show ?thesis by (simp add: collect_saturated perf_count_def)
next
  case suppressed
  then show ?thesis by (simp add: collect_suppressed)
next
  case accepted
  then show ?thesis by (simp add: collect_accepted)
qed

lemma collect_comms_errors_mono: "comms_errors s \<le> comms_errors (snd (collect s io))"
  by (simp add: collect_comms_errors)

lemma measure_comms_errors_mono: "comms_errors s \<le> comms_errors (snd (measure s ret))"
  by (simp add: measure_def perf_count_def)

lemma measurement_phase_eq:
  "measurement_phase s io =
     ((snd (measure s (measure_ret io)))\<lparr>sensor_ok := (measure_ret io = OK), collect_phase := True\<rparr>,
      ScheduleDelayed CONVERSION_INTERVAL)"
  by (simp add: measurement_phase_def measure_def)

lemma measurement_phase_comms_errors_mono:
  "comms_errors s \<le> comms_errors (fst (measurement_phase s io))"
  using measure_comms_errors_mono [of s "measure_ret io"] by (simp add: measurement_phase_eq)

lemma RunImpl_comms_errors_mono: "comms_errors s \<le> comms_errors (fst (RunImpl s io))"
proof -
  let ?c = "collect s (collect_in io)"
  have c: "comms_errors s \<le> comms_errors (snd ?c)"
    by (rule collect_comms_errors_mono)
  have m: "comms_errors (snd ?c) \<le>
      comms_errors (fst (measurement_phase ((snd ?c)\<lparr>collect_phase := False\<rparr>) io))"
    using measurement_phase_comms_errors_mono [of "(snd ?c)\<lparr>collect_phase := False\<rparr>" io]
    by simp
  show ?thesis
    using c m measurement_phase_comms_errors_mono [of s io]
    by (auto simp: RunImpl_def Let_def split: prod.splits)
qed

lemma run_steps_comms_errors_mono: "comms_errors s \<le> comms_errors (run_steps s ios)"
proof (induction ios arbitrary: s)
  case Nil
  show ?case by simp
next
  case (Cons io ios)
  have "comms_errors s \<le> comms_errors (fst (RunImpl s io))"
    by (rule RunImpl_comms_errors_mono)
  also have "\<dots> \<le> comms_errors (run_steps (fst (RunImpl s io)) ios)"
    by (rule Cons.IH)
  finally show ?case by simp
qed

text \<open>What one call of \<open>collect\<close> publishes, and what the publication holds afterwards.\<close>

lemma published_by_cases:
  "published_by s io =
     (if 0 \<le> rx_ret io \<and> status_of (rx_val io) = 0 \<and> dT_raw_of (rx_val io) \<noteq> 2047 \<and>
         dp_raw_of (rx_val io) \<noteq> dp_raw_prev s \<and> dT_raw_of (rx_val io) \<noteq> dT_raw_prev s
      then [\<lparr>timestamp_sample = t_sample io, device_id = get_device_id s,
             report_dp_raw = dp_raw_of (rx_val io), report_dT_raw = dT_raw_of (rx_val io),
             error_count = comms_errors s, timestamp = t_publish io\<rparr>]
      else [])"
proof (cases rule: collect_cases [where io = io and s = s])
  case transport
  then show ?thesis by (simp add: published_by_def collect_transport perf_count_def)
next
  case reserved
  then show ?thesis by (simp add: published_by_def collect_reserved)
next
  case stale
  then show ?thesis by (simp add: published_by_def collect_stale)
next
  case fault
  then show ?thesis by (simp add: published_by_def collect_fault perf_count_def)
next
  case saturated
  then show ?thesis by (simp add: published_by_def collect_saturated perf_count_def)
next
  case suppressed
  then show ?thesis by (auto simp add: published_by_def collect_suppressed)
next
  case accepted
  then show ?thesis by (simp add: published_by_def collect_accepted)
qed

lemma pub_after_collect:
  "differential_pressure_pub (snd (collect s io)) =
   differential_pressure_pub s @ published_by s io"
proof (cases "fst (collect s io) = OK")
  case False
  then have "differential_pressure_pub (snd (collect s io)) = differential_pressure_pub s"
    by (rule collect_failure_keeps)
  then show ?thesis by (simp add: published_by_def)
next
  case True
  then have ok: "0 \<le> rx_ret io" "status_of (rx_val io) = 0" "dT_raw_of (rx_val io) \<noteq> 2047"
    using collect_fails_iff [of s io] by auto
  show ?thesis
  proof (cases "dp_raw_of (rx_val io) \<noteq> dp_raw_prev s \<and> dT_raw_of (rx_val io) \<noteq> dT_raw_prev s")
    case True
    with ok show ?thesis by (simp add: published_by_def collect_accepted)
  next
    case False
    with ok show ?thesis by (auto simp add: published_by_def collect_suppressed)
  qed
qed

lemma published_iff:
  "published_by s io \<noteq> [] \<longleftrightarrow>
   0 \<le> rx_ret io \<and> status_of (rx_val io) = 0 \<and> dT_raw_of (rx_val io) \<noteq> 2047 \<and>
   dp_raw_of (rx_val io) \<noteq> dp_raw_prev s \<and> dT_raw_of (rx_val io) \<noteq> dT_raw_prev s"
  by (simp add: published_by_cases)

lemma good_is_published: "published_by collecting (rx 0 good_val) \<noteq> []"
  by (simp add: published_iff rx_simps sample_status sample_counts collecting_simps)

text \<open>
  Claim C7. A call of \<open>collect\<close> increments the error counter by one exactly when the bus
  read failed, or the status is Fault (bits 11), or the status is Normal and the temperature
  count is 2047, and leaves it as it was otherwise; a Stale status (bits 10) ends the call
  with \<open>-EAGAIN\<close> and does not count. The counter never decreases: not in \<open>collect\<close>, not in
  a call of \<open>RunImpl\<close>, and not over any sequence of calls. Every report that \<open>collect\<close>
  publishes carries the value that the counter has when the call returns.
\<close>

theorem comms_errors_accounting:
  "comms_errors (snd (collect s io)) =
     comms_errors s +
     (if rx_ret io < 0 \<or> status_of (rx_val io) = 3 \<or>
         (status_of (rx_val io) = 0 \<and> dT_raw_of (rx_val io) = 2047)
      then 1 else 0) \<and>
   (0 \<le> rx_ret io \<and> status_of (rx_val io) = 2 \<longrightarrow>
      fst (collect s io) = - EAGAIN \<and> comms_errors (snd (collect s io)) = comms_errors s) \<and>
   comms_errors s \<le> comms_errors (snd (collect s io)) \<and>
   comms_errors s \<le> comms_errors (fst (RunImpl s rio)) \<and>
   comms_errors s \<le> comms_errors (run_steps s ios) \<and>
   (\<forall>r \<in> set (published_by s io). error_count r = comms_errors (snd (collect s io)))"
proof -
  have "\<forall>r \<in> set (published_by s io). error_count r = comms_errors (snd (collect s io))"
    by (simp add: published_by_cases collect_comms_errors)
  moreover have "0 \<le> rx_ret io \<and> status_of (rx_val io) = 2 \<longrightarrow>
      fst (collect s io) = - EAGAIN \<and> comms_errors (snd (collect s io)) = comms_errors s"
    by (simp add: collect_stale)
  ultimately show ?thesis
    using collect_comms_errors [of s io] collect_comms_errors_mono [of s io]
      RunImpl_comms_errors_mono [of s rio] run_steps_comms_errors_mono [of s ios]
    by blast
qed

theorem comms_errors_accounting_witness:
  "0 \<le> rx_ret (rx 0 stale_val) \<and> status_of (rx_val (rx 0 stale_val)) = 2 \<and>
   fst (collect collecting (rx 0 stale_val)) = - 11 \<and>
   comms_errors (snd (collect collecting (rx 0 stale_val))) = comms_errors collecting \<and>
   comms_errors (snd (collect collecting (rx 0 fault_val))) = comms_errors collecting + 1 \<and>
   comms_errors (snd (collect collecting (rx 0 saturated_val))) = comms_errors collecting + 1 \<and>
   comms_errors (snd (collect collecting (rx (- 5) good_val))) = comms_errors collecting + 1 \<and>
   hd (published_by collecting (rx 0 good_val)) \<in> set (published_by collecting (rx 0 good_val)) \<and>
   error_count (hd (published_by collecting (rx 0 good_val))) =
     comms_errors (snd (collect collecting (rx 0 good_val))) \<and>
   comms_errors collecting \<le>
     comms_errors (run_steps collecting [step_in 0 fault_val 0, step_in 0 good_val (- 1)])"
proof -
  have h: "0 \<le> rx_ret (rx 0 stale_val)" "status_of (rx_val (rx 0 stale_val)) = 2"
    by (simp_all add: rx_simps sample_status)
  have m: "hd (published_by collecting (rx 0 good_val)) \<in>
      set (published_by collecting (rx 0 good_val))"
    using good_is_published by simp
  show ?thesis
    using h m
      comms_errors_accounting [of collecting "rx 0 stale_val" "step_in 0 fault_val 0"
        "[step_in 0 fault_val 0, step_in 0 good_val (- 1)]"]
      comms_errors_accounting [of collecting "rx 0 fault_val" "step_in 0 fault_val 0" "[]"]
      comms_errors_accounting [of collecting "rx 0 saturated_val" "step_in 0 fault_val 0" "[]"]
      comms_errors_accounting [of collecting "rx (- 5) good_val" "step_in 0 fault_val 0" "[]"]
      comms_errors_accounting [of collecting "rx 0 good_val" "step_in 0 fault_val 0" "[]"]
    by (simp add: rx_simps sample_status sample_counts EAGAIN_def)
qed

subsection \<open>Change suppression\<close>

lemma cache_after_collect:
  "dp_raw_prev (snd (collect s io)) = (if published_by s io = [] then dp_raw_prev s else dp_raw_of (rx_val io))"
  "dT_raw_prev (snd (collect s io)) = (if published_by s io = [] then dT_raw_prev s else dT_raw_of (rx_val io))"
proof -
  show "dp_raw_prev (snd (collect s io)) = (if published_by s io = [] then dp_raw_prev s else dp_raw_of (rx_val io))"
  proof (cases rule: collect_cases [where io = io and s = s])
    case transport
    then show ?thesis by (simp add: published_by_cases collect_transport perf_count_def)
  next
    case reserved
    then show ?thesis by (simp add: published_by_cases collect_reserved)
  next
    case stale
    then show ?thesis by (simp add: published_by_cases collect_stale)
  next
    case fault
    then show ?thesis by (simp add: published_by_cases collect_fault perf_count_def)
  next
    case saturated
    then show ?thesis by (simp add: published_by_cases collect_saturated perf_count_def)
  next
    case suppressed
    then show ?thesis by (auto simp add: published_by_cases collect_suppressed)
  next
    case accepted
    then show ?thesis by (simp add: published_by_cases collect_accepted)
  qed
  show "dT_raw_prev (snd (collect s io)) = (if published_by s io = [] then dT_raw_prev s else dT_raw_of (rx_val io))"
  proof (cases rule: collect_cases [where io = io and s = s])
    case transport
    then show ?thesis by (simp add: published_by_cases collect_transport perf_count_def)
  next
    case reserved
    then show ?thesis by (simp add: published_by_cases collect_reserved)
  next
    case stale
    then show ?thesis by (simp add: published_by_cases collect_stale)
  next
    case fault
    then show ?thesis by (simp add: published_by_cases collect_fault perf_count_def)
  next
    case saturated
    then show ?thesis by (simp add: published_by_cases collect_saturated perf_count_def)
  next
    case suppressed
    then show ?thesis by (auto simp add: published_by_cases collect_suppressed)
  next
    case accepted
    then show ?thesis by (simp add: published_by_cases collect_accepted)
  qed
qed

lemma second_collect_silent:
  assumes "0 \<le> rx_ret io" and "rx_val io' = rx_val io"
  shows "published_by (snd (collect s io)) io' = []"
proof (cases "published_by s io = []")
  case False
  then have "dp_raw_prev (snd (collect s io)) = dp_raw_of (rx_val io')"
    using assms by (simp add: cache_after_collect)
  then show ?thesis by (simp add: published_by_cases)
next
  case True
  then have "dp_raw_prev (snd (collect s io)) = dp_raw_prev s"
    and "dT_raw_prev (snd (collect s io)) = dT_raw_prev s"
    by (simp_all add: cache_after_collect)
  moreover have "\<not> (status_of (rx_val io) = 0 \<and> dT_raw_of (rx_val io) \<noteq> 2047 \<and>
      dp_raw_of (rx_val io) \<noteq> dp_raw_prev s \<and> dT_raw_of (rx_val io) \<noteq> dT_raw_prev s)"
    using True assms(1) published_iff [of s io] by blast
  ultimately show ?thesis
    using assms(2) by (auto simp add: published_by_cases)
qed

lemma two_collects_one_publish:
  assumes "rx_val io' = rx_val io"
  shows "length (published_by s io) + length (published_by (snd (collect s io)) io') \<le> 1"
proof (cases "published_by s io = []")
  case True
  then show ?thesis by (simp add: published_by_cases [of "snd (collect s io)"])
next
  case False
  then have "0 \<le> rx_ret io" using published_iff [of s io] by blast
  then have "published_by (snd (collect s io)) io' = []"
    using assms by (rule second_collect_silent)
  then show ?thesis by (simp add: published_by_cases [of s])
qed

text \<open>
  Claim C1. A call of \<open>collect\<close> publishes a report exactly when the read succeeded, the
  status is Normal, the temperature count is not 2047, and both decoded counts differ from
  the cached ones; so it publishes only when the pressure count differs from the cached
  pressure count and the temperature count differs from the cached temperature count. The
  publication grows by what the call publishes, which is at most one report. The cache
  changes exactly when a report is published, and then holds the decoded counts. A second
  call on the same bytes, after a first call whose read succeeded, publishes nothing; and
  whatever the results of the two reads, two calls on the same bytes publish at most one
  report together.
\<close>

theorem publish_only_on_change:
  "(published_by s io \<noteq> [] \<longleftrightarrow>
      0 \<le> rx_ret io \<and> status_of (rx_val io) = 0 \<and> dT_raw_of (rx_val io) \<noteq> 2047 \<and>
      dp_raw_of (rx_val io) \<noteq> dp_raw_prev s \<and> dT_raw_of (rx_val io) \<noteq> dT_raw_prev s) \<and>
   (published_by s io \<noteq> [] \<longrightarrow>
      dp_raw_of (rx_val io) \<noteq> dp_raw_prev s \<and> dT_raw_of (rx_val io) \<noteq> dT_raw_prev s) \<and>
   differential_pressure_pub (snd (collect s io)) =
     differential_pressure_pub s @ published_by s io \<and>
   length (published_by s io) \<le> 1 \<and>
   (dp_raw_prev (snd (collect s io)) \<noteq> dp_raw_prev s \<or>
    dT_raw_prev (snd (collect s io)) \<noteq> dT_raw_prev s \<longleftrightarrow> published_by s io \<noteq> []) \<and>
   (published_by s io \<noteq> [] \<longrightarrow>
      dp_raw_prev (snd (collect s io)) = dp_raw_of (rx_val io) \<and>
      dT_raw_prev (snd (collect s io)) = dT_raw_of (rx_val io)) \<and>
   (0 \<le> rx_ret io \<and> rx_val io' = rx_val io \<longrightarrow>
      published_by (snd (collect s io)) io' = []) \<and>
   (rx_val io' = rx_val io \<longrightarrow>
      length (published_by s io) + length (published_by (snd (collect s io)) io') \<le> 1)"
proof -
  have a: "published_by s io \<noteq> [] \<longrightarrow>
      dp_raw_of (rx_val io) \<noteq> dp_raw_prev s \<and> dT_raw_of (rx_val io) \<noteq> dT_raw_prev s"
    using published_iff [of s io] by blast
  have b: "length (published_by s io) \<le> 1"
    by (simp add: published_by_cases)
  have c: "dp_raw_prev (snd (collect s io)) \<noteq> dp_raw_prev s \<or>
      dT_raw_prev (snd (collect s io)) \<noteq> dT_raw_prev s \<longleftrightarrow> published_by s io \<noteq> []"
    using a by (auto simp add: cache_after_collect)
  have d: "published_by s io \<noteq> [] \<longrightarrow>
      dp_raw_prev (snd (collect s io)) = dp_raw_of (rx_val io) \<and>
      dT_raw_prev (snd (collect s io)) = dT_raw_of (rx_val io)"
    by (simp add: cache_after_collect)
  show ?thesis
    using published_iff [of s io] a pub_after_collect [of s io] b c d
      second_collect_silent [of io io' s] two_collects_one_publish [of io' io s]
    by blast
qed

theorem publish_only_on_change_witness:
  "published_by collecting (rx 0 good_val) \<noteq> [] \<and>
   0 \<le> rx_ret (rx 0 good_val) \<and>
   rx_val (rx 3 good_val) = rx_val (rx 0 good_val) \<and>
   dp_raw_of (rx_val (rx 0 good_val)) \<noteq> dp_raw_prev collecting \<and>
   dT_raw_of (rx_val (rx 0 good_val)) \<noteq> dT_raw_prev collecting \<and>
   dp_raw_prev (snd (collect collecting (rx 0 good_val))) = 4660 \<and>
   dT_raw_prev (snd (collect collecting (rx 0 good_val))) = 1374 \<and>
   length (published_by collecting (rx 0 good_val)) = 1 \<and>
   published_by (snd (collect collecting (rx 0 good_val))) (rx 3 good_val) = []"
proof -
  have h: "0 \<le> rx_ret (rx 0 good_val)" "rx_val (rx 3 good_val) = rx_val (rx 0 good_val)"
    by (simp_all add: rx_simps)
  have n: "length (published_by collecting (rx 0 good_val)) \<noteq> 0"
    using good_is_published by simp
  note t = publish_only_on_change [of collecting "rx 0 good_val" "rx 3 good_val"]
  have "length (published_by collecting (rx 0 good_val)) \<le> 1"
    using t by blast
  with n have "length (published_by collecting (rx 0 good_val)) = 1"
    by linarith
  moreover have "published_by (snd (collect collecting (rx 0 good_val))) (rx 3 good_val) = []"
    using t h by blast
  moreover have "dp_raw_prev (snd (collect collecting (rx 0 good_val))) = 4660 \<and>
      dT_raw_prev (snd (collect collecting (rx 0 good_val))) = 1374 \<and>
      dp_raw_of (rx_val (rx 0 good_val)) \<noteq> dp_raw_prev collecting \<and>
      dT_raw_of (rx_val (rx 0 good_val)) \<noteq> dT_raw_prev collecting"
    using t good_is_published by (auto simp add: sample_counts rx_simps)
  ultimately show ?thesis
    using h good_is_published by blast
qed

subsection \<open>The steps of RunImpl\<close>

lemma CONVERSION_INTERVAL_value: "CONVERSION_INTERVAL = 10000"
  by (simp add: CONVERSION_INTERVAL_def MEAS_RATE_def)

lemma RunImpl_measure_state:
  "\<not> collect_phase s \<Longrightarrow> RunImpl s io = measurement_phase s io"
  by (simp add: RunImpl_def)

lemma collect_measure_interval: "measure_interval (snd (collect s io)) = measure_interval s"
  by (cases rule: collect_cases [where io = io and s = s])
    (auto simp add: collect_transport collect_reserved collect_stale collect_fault
      collect_saturated collect_suppressed collect_accepted perf_count_def)

lemma RunImpl_collect_failed:
  assumes "collect_phase s" and "fst (collect s (collect_in io)) \<noteq> OK"
  shows "RunImpl s io =
     ((snd (collect s (collect_in io)))\<lparr>collect_phase := False, sensor_ok := False\<rparr>, ScheduleNow)"
proof -
  obtain ret s1 where c: "collect s (collect_in io) = (ret, s1)"
    by (cases "collect s (collect_in io)")
  with assms show ?thesis by (simp add: RunImpl_def)
qed

lemma RunImpl_collect_gap:
  assumes "collect_phase s" and "fst (collect s (collect_in io)) = OK"
    and "CONVERSION_INTERVAL < measure_interval s"
  shows "RunImpl s io =
     ((snd (collect s (collect_in io)))\<lparr>collect_phase := False\<rparr>,
      ScheduleDelayed (measure_interval s - CONVERSION_INTERVAL))"
proof -
  obtain ret s1 where c: "collect s (collect_in io) = (ret, s1)"
    by (cases "collect s (collect_in io)")
  with assms collect_measure_interval [of s "collect_in io"] show ?thesis
    by (simp add: RunImpl_def)
qed

lemma RunImpl_collect_no_gap:
  assumes "collect_phase s" and "fst (collect s (collect_in io)) = OK"
    and "\<not> CONVERSION_INTERVAL < measure_interval s"
  shows "RunImpl s io =
     measurement_phase ((snd (collect s (collect_in io)))\<lparr>collect_phase := False\<rparr>) io"
proof -
  obtain ret s1 where c: "collect s (collect_in io) = (ret, s1)"
    by (cases "collect s (collect_in io)")
  with assms collect_measure_interval [of s "collect_in io"] show ?thesis
    by (simp add: RunImpl_def)
qed

lemma RunImpl_ends_in_collect_phase:
  assumes "collect_phase (fst (RunImpl s io))"
  shows "snd (RunImpl s io) = ScheduleDelayed CONVERSION_INTERVAL"
proof (cases "collect_phase s")
  case False
  then show ?thesis by (simp add: RunImpl_measure_state measurement_phase_eq)
next
  case True
  note cp = this
  show ?thesis
  proof (cases "fst (collect s (collect_in io)) = OK")
    case False
    with cp assms show ?thesis by (simp add: RunImpl_collect_failed)
  next
    case True
    note ok = this
    show ?thesis
    proof (cases "CONVERSION_INTERVAL < measure_interval s")
      case True
      with cp ok assms show ?thesis by (simp add: RunImpl_collect_gap)
    next
      case False
      with cp ok show ?thesis by (simp add: RunImpl_collect_no_gap measurement_phase_eq)
    qed
  qed
qed

lemma good_collect_ok: "fst (collect s (rx 0 good_val)) = OK"
  using collect_fails_iff [of s "rx 0 good_val"]
  by (simp add: rx_simps sample_status sample_counts)

lemma fault_collect_fails: "fst (collect s (rx 0 fault_val)) \<noteq> OK"
  using collect_fails_iff [of s "rx 0 fault_val"]
  by (simp add: rx_simps sample_status)

text \<open>
  No function of the driver assigns \<open>_measure_interval\<close>: it keeps through every call the
  value it has, which is 0 for an object that the constructor has made.
\<close>

lemma RunImpl_measure_interval: "measure_interval (fst (RunImpl s io)) = measure_interval s"
proof -
  obtain ret s1 where c: "collect s (collect_in io) = (ret, s1)"
    by (cases "collect s (collect_in io)")
  then have "measure_interval s1 = measure_interval s"
    using collect_measure_interval [of s "collect_in io"] by simp
  then show ?thesis
    by (simp add: RunImpl_def c Let_def measurement_phase_eq measure_def perf_count_def)
qed

lemma run_steps_measure_interval:
  "measure_interval (run_steps s ios) = measure_interval s"
  by (induction ios arbitrary: s) (simp_all add: RunImpl_measure_interval)

lemma measure_interval_never_set:
  "measure_interval (run_steps (MEASAirspeed_init dev) ios) = 0"
  by (simp add: run_steps_measure_interval MEASAirspeed_init_def)

text \<open>
  Claim C8. The measurement phase of \<open>RunImpl\<close>, whether the command transfer succeeds or
  fails, sets the phase to COLLECT and asks for the next call after the conversion interval,
  which is 10000 microseconds; \<open>_sensor_ok\<close> is true afterwards exactly when the transfer
  returned \<open>OK\<close>. A call of \<open>RunImpl\<close> in the MEASURE phase is this measurement phase; it
  counts a failed transfer as one communication error.
\<close>

theorem measure_step:
  "CONVERSION_INTERVAL = 10000 \<and>
   collect_phase (fst (measurement_phase s io)) \<and>
   snd (measurement_phase s io) = ScheduleDelayed CONVERSION_INTERVAL \<and>
   (sensor_ok (fst (measurement_phase s io)) \<longleftrightarrow> measure_ret io = OK) \<and>
   (\<not> collect_phase s \<longrightarrow>
      collect_phase (fst (RunImpl s io)) \<and>
      snd (RunImpl s io) = ScheduleDelayed CONVERSION_INTERVAL \<and>
      (sensor_ok (fst (RunImpl s io)) \<longleftrightarrow> measure_ret io = OK) \<and>
      comms_errors (fst (RunImpl s io)) =
        comms_errors s + (if measure_ret io = OK then 0 else 1))"
proof -
  have phase: "collect_phase (fst (measurement_phase s io))"
    and sched: "snd (measurement_phase s io) = ScheduleDelayed CONVERSION_INTERVAL"
    and ok: "sensor_ok (fst (measurement_phase s io)) \<longleftrightarrow> measure_ret io = OK"
    by (simp_all add: measurement_phase_eq)
  have errs: "comms_errors (fst (measurement_phase s io)) =
      comms_errors s + (if measure_ret io = OK then 0 else 1)"
    by (simp add: measurement_phase_eq measure_def perf_count_def)
  show ?thesis
    using phase sched ok errs CONVERSION_INTERVAL_value
    by (simp add: RunImpl_measure_state)
qed

theorem measure_step_witness:
  "\<not> collect_phase (MEASAirspeed_init 7) \<and>
   collect_phase (fst (RunImpl (MEASAirspeed_init 7) (step_in 0 good_val 0))) \<and>
   snd (RunImpl (MEASAirspeed_init 7) (step_in 0 good_val 0)) = ScheduleDelayed 10000 \<and>
   sensor_ok (fst (RunImpl (MEASAirspeed_init 7) (step_in 0 good_val 0))) \<and>
   collect_phase (fst (RunImpl (MEASAirspeed_init 7) (step_in 0 good_val (- 5)))) \<and>
   snd (RunImpl (MEASAirspeed_init 7) (step_in 0 good_val (- 5))) = ScheduleDelayed 10000 \<and>
   \<not> sensor_ok (fst (RunImpl (MEASAirspeed_init 7) (step_in 0 good_val (- 5)))) \<and>
   comms_errors (fst (RunImpl (MEASAirspeed_init 7) (step_in 0 good_val (- 5)))) = 1"
proof -
  have h: "\<not> collect_phase (MEASAirspeed_init 7)"
    by (simp add: MEASAirspeed_init_def)
  have c: "comms_errors (MEASAirspeed_init 7) = 0"
    by (simp add: MEASAirspeed_init_def)
  show ?thesis
    using h c measure_step [of "MEASAirspeed_init 7" "step_in 0 good_val 0"]
      measure_step [of "MEASAirspeed_init 7" "step_in 0 good_val (- 5)"]
    by (auto simp add: step_in_simps OK_def)
qed

text \<open>
  Claim C6. The conversion interval is 1000000 / 100 = 10000 microseconds. A call of
  \<open>RunImpl\<close> in the MEASURE phase asks for the next call after exactly the conversion
  interval and leaves the phase COLLECT; more generally, every call that leaves the phase
  COLLECT asks for the next call after the conversion interval. A call in the COLLECT phase
  whose \<open>collect\<close> succeeds, with \<open>_measure_interval\<close> greater than the conversion interval,
  asks for the next call after \<open>_measure_interval\<close> minus the conversion interval and leaves
  the phase MEASURE. A call in the COLLECT phase whose \<open>collect\<close> fails asks for the next
  call at once (\<open>ScheduleNow\<close>) and leaves the phase MEASURE.
\<close>

theorem step_scheduling:
  "CONVERSION_INTERVAL = 10000 \<and>
   (\<not> collect_phase s \<longrightarrow>
      snd (RunImpl s io) = ScheduleDelayed CONVERSION_INTERVAL \<and>
      collect_phase (fst (RunImpl s io))) \<and>
   (collect_phase (fst (RunImpl s io)) \<longrightarrow>
      snd (RunImpl s io) = ScheduleDelayed CONVERSION_INTERVAL) \<and>
   (collect_phase s \<and> fst (collect s (collect_in io)) = OK \<and>
    CONVERSION_INTERVAL < measure_interval s \<longrightarrow>
      snd (RunImpl s io) = ScheduleDelayed (measure_interval s - CONVERSION_INTERVAL) \<and>
      \<not> collect_phase (fst (RunImpl s io))) \<and>
   (collect_phase s \<and> fst (collect s (collect_in io)) \<noteq> OK \<longrightarrow>
      snd (RunImpl s io) = ScheduleNow \<and> \<not> collect_phase (fst (RunImpl s io)))"
proof -
  have "\<not> collect_phase s \<longrightarrow>
      snd (RunImpl s io) = ScheduleDelayed CONVERSION_INTERVAL \<and>
      collect_phase (fst (RunImpl s io))"
    by (simp add: RunImpl_measure_state measurement_phase_eq)
  moreover have "collect_phase (fst (RunImpl s io)) \<longrightarrow>
      snd (RunImpl s io) = ScheduleDelayed CONVERSION_INTERVAL"
    using RunImpl_ends_in_collect_phase [of s io] by blast
  moreover have "collect_phase s \<and> fst (collect s (collect_in io)) = OK \<and>
      CONVERSION_INTERVAL < measure_interval s \<longrightarrow>
      snd (RunImpl s io) = ScheduleDelayed (measure_interval s - CONVERSION_INTERVAL) \<and>
      \<not> collect_phase (fst (RunImpl s io))"
    by (simp add: RunImpl_collect_gap)
  moreover have "collect_phase s \<and> fst (collect s (collect_in io)) \<noteq> OK \<longrightarrow>
      snd (RunImpl s io) = ScheduleNow \<and> \<not> collect_phase (fst (RunImpl s io))"
    by (simp add: RunImpl_collect_failed)
  ultimately show ?thesis
    using CONVERSION_INTERVAL_value by blast
qed

theorem step_scheduling_witness:
  "\<not> collect_phase (MEASAirspeed_init 7) \<and>
   snd (RunImpl (MEASAirspeed_init 7) (step_in 0 good_val 0)) = ScheduleDelayed 10000 \<and>
   collect_phase (fst (RunImpl (MEASAirspeed_init 7) (step_in 0 good_val 0))) \<and>
   collect_phase slow_poll \<and>
   fst (collect slow_poll (collect_in (step_in 0 good_val 0))) = OK \<and>
   CONVERSION_INTERVAL < measure_interval slow_poll \<and>
   snd (RunImpl slow_poll (step_in 0 good_val 0)) = ScheduleDelayed 40000 \<and>
   \<not> collect_phase (fst (RunImpl slow_poll (step_in 0 good_val 0))) \<and>
   collect_phase collecting \<and>
   fst (collect collecting (collect_in (step_in 0 fault_val 0))) \<noteq> OK \<and>
   snd (RunImpl collecting (step_in 0 fault_val 0)) = ScheduleNow \<and>
   \<not> collect_phase (fst (RunImpl collecting (step_in 0 fault_val 0)))"
proof -
  have h1: "\<not> collect_phase (MEASAirspeed_init 7)"
    by (simp add: MEASAirspeed_init_def)
  have h2: "collect_phase slow_poll"
    "fst (collect slow_poll (collect_in (step_in 0 good_val 0))) = OK"
    "CONVERSION_INTERVAL < measure_interval slow_poll"
    by (simp_all add: slow_poll_simps step_in_simps good_collect_ok CONVERSION_INTERVAL_value)
  have h3: "collect_phase collecting"
    "fst (collect collecting (collect_in (step_in 0 fault_val 0))) \<noteq> OK"
    by (simp_all add: collecting_simps step_in_simps fault_collect_fails)
  have "snd (RunImpl slow_poll (step_in 0 good_val 0)) =
      ScheduleDelayed (measure_interval slow_poll - CONVERSION_INTERVAL)"
    using h2 step_scheduling [of slow_poll "step_in 0 good_val 0"] by blast
  then have g: "snd (RunImpl slow_poll (step_in 0 good_val 0)) = ScheduleDelayed 40000"
    by (simp add: slow_poll_simps CONVERSION_INTERVAL_value)
  have "snd (RunImpl (MEASAirspeed_init 7) (step_in 0 good_val 0)) =
      ScheduleDelayed CONVERSION_INTERVAL"
    using h1 step_scheduling [of "MEASAirspeed_init 7" "step_in 0 good_val 0"] by blast
  then have m: "snd (RunImpl (MEASAirspeed_init 7) (step_in 0 good_val 0)) =
      ScheduleDelayed 10000"
    by (simp add: CONVERSION_INTERVAL_value)
  show ?thesis
    using h1 h2 h3 g m step_scheduling [of "MEASAirspeed_init 7" "step_in 0 good_val 0"]
      step_scheduling [of slow_poll "step_in 0 good_val 0"]
      step_scheduling [of collecting "step_in 0 fault_val 0"]
    by blast
qed

text \<open>
  Claim C2, as stated, says that a protocol fault is not handled as a reset: that scheduling
  goes on as after a good collect, unlike a transport fault. The driver does not tell the two
  apart. From the COLLECT phase with \<open>_sensor_ok\<close> set, a response with the Fault status gives
  the phase MEASURE, \<open>_sensor_ok\<close> cleared and \<open>ScheduleNow\<close>: the very result of a failed bus
  read. Stale status and a saturated temperature give \<open>ScheduleNow\<close> too, where an accepted
  response gives a delay of 10000 microseconds.
\<close>

theorem protocol_fault_is_hard_reset:
  "collect_phase collecting \<and> sensor_ok collecting \<and>
   0 \<le> rx_ret (collect_in (step_in 0 fault_val 0)) \<and>
   status_of (rx_val (collect_in (step_in 0 fault_val 0))) = 3 \<and>
   rx_ret (collect_in (step_in (- 5) good_val 0)) < 0 \<and>
   RunImpl collecting (step_in 0 fault_val 0) =
     (collecting\<lparr>collect_phase := False, sensor_ok := False, comms_errors := 1\<rparr>, ScheduleNow) \<and>
   RunImpl collecting (step_in 0 fault_val 0) = RunImpl collecting (step_in (- 5) good_val 0) \<and>
   snd (RunImpl collecting (step_in 0 stale_val 0)) = ScheduleNow \<and>
   snd (RunImpl collecting (step_in 0 saturated_val 0)) = ScheduleNow \<and>
   snd (RunImpl collecting (step_in 0 good_val 0)) = ScheduleDelayed 10000"
proof -
  have f: "collect collecting (rx 0 fault_val) = (- EAGAIN, perf_count collecting)"
    by (simp add: collect_fault rx_simps sample_status)
  have t: "collect collecting (rx (- 5) good_val) = (- 5, perf_count collecting)"
    by (simp add: collect_transport rx_simps)
  have st: "collect collecting (rx 0 stale_val) = (- EAGAIN, collecting)"
    by (simp add: collect_stale rx_simps sample_status)
  have sa: "collect collecting (rx 0 saturated_val) = (- EAGAIN, perf_count collecting)"
    by (simp add: collect_saturated rx_simps sample_status sample_counts)
  have g: "snd (RunImpl collecting (step_in 0 good_val 0)) = ScheduleDelayed 10000"
    using RunImpl_collect_no_gap [of collecting "step_in 0 good_val 0"]
    by (simp add: collecting_simps step_in_simps good_collect_ok CONVERSION_INTERVAL_value
        measurement_phase_eq)
  show ?thesis
    using g
    by (simp add: RunImpl_def step_in_simps rx_simps f t st sa collecting_simps sample_status
        EAGAIN_def OK_def perf_count_def)
qed

text \<open>
  Claim C2, amended. In the COLLECT phase, when the read succeeds and the response is a
  protocol fault (status Fault or Stale, or status Normal with the temperature count 2047),
  the cycle ends without a change of the cache and without a publication, and the fault is
  handled as every other failure of \<open>collect\<close> is: the phase goes back to MEASURE,
  \<open>_sensor_ok\<close> is cleared, and the next call is asked for at once.
\<close>

theorem protocol_fault_resets:
  assumes "collect_phase s" and "0 \<le> rx_ret (collect_in io)"
    and "status_of (rx_val (collect_in io)) = 3 \<or> status_of (rx_val (collect_in io)) = 2 \<or>
         (status_of (rx_val (collect_in io)) = 0 \<and> dT_raw_of (rx_val (collect_in io)) = 2047)"
  shows "dp_raw_prev (fst (RunImpl s io)) = dp_raw_prev s \<and>
         dT_raw_prev (fst (RunImpl s io)) = dT_raw_prev s \<and>
         differential_pressure_pub (fst (RunImpl s io)) = differential_pressure_pub s \<and>
         \<not> collect_phase (fst (RunImpl s io)) \<and>
         \<not> sensor_ok (fst (RunImpl s io)) \<and>
         snd (RunImpl s io) = ScheduleNow"
proof -
  have f: "fst (collect s (collect_in io)) \<noteq> OK"
    using assms(3) collect_fails_iff [of s "collect_in io"] by auto
  show ?thesis
    using collect_failure_keeps [OF f] by (simp add: RunImpl_collect_failed [OF assms(1) f])
qed

theorem protocol_fault_resets_witness:
  "collect_phase collecting \<and> sensor_ok collecting \<and>
   0 \<le> rx_ret (collect_in (step_in 0 fault_val 0)) \<and>
   status_of (rx_val (collect_in (step_in 0 fault_val 0))) = 3 \<and>
   status_of (rx_val (collect_in (step_in 0 stale_val 0))) = 2 \<and>
   status_of (rx_val (collect_in (step_in 0 saturated_val 0))) = 0 \<and>
   dT_raw_of (rx_val (collect_in (step_in 0 saturated_val 0))) = 2047 \<and>
   snd (RunImpl collecting (step_in 0 fault_val 0)) = ScheduleNow \<and>
   snd (RunImpl collecting (step_in 0 stale_val 0)) = ScheduleNow \<and>
   snd (RunImpl collecting (step_in 0 saturated_val 0)) = ScheduleNow \<and>
   \<not> collect_phase (fst (RunImpl collecting (step_in 0 fault_val 0))) \<and>
   \<not> sensor_ok (fst (RunImpl collecting (step_in 0 fault_val 0))) \<and>
   dp_raw_prev (fst (RunImpl collecting (step_in 0 fault_val 0))) = dp_raw_prev collecting \<and>
   dT_raw_prev (fst (RunImpl collecting (step_in 0 fault_val 0))) = dT_raw_prev collecting \<and>
   differential_pressure_pub (fst (RunImpl collecting (step_in 0 fault_val 0))) =
     differential_pressure_pub collecting"
proof -
  have h: "collect_phase collecting" "sensor_ok collecting"
    "0 \<le> rx_ret (collect_in (step_in 0 fault_val 0))"
    "0 \<le> rx_ret (collect_in (step_in 0 stale_val 0))"
    "0 \<le> rx_ret (collect_in (step_in 0 saturated_val 0))"
    "status_of (rx_val (collect_in (step_in 0 fault_val 0))) = 3"
    "status_of (rx_val (collect_in (step_in 0 stale_val 0))) = 2"
    "status_of (rx_val (collect_in (step_in 0 saturated_val 0))) = 0"
    "dT_raw_of (rx_val (collect_in (step_in 0 saturated_val 0))) = 2047"
    by (simp_all add: collecting_simps step_in_simps rx_simps sample_status sample_counts)
  show ?thesis
    using h protocol_fault_resets [of collecting "step_in 0 fault_val 0"]
      protocol_fault_resets [of collecting "step_in 0 stale_val 0"]
      protocol_fault_resets [of collecting "step_in 0 saturated_val 0"]
    by blast
qed

subsection \<open>The device type on the command line\<close>

lemma parse_device_type_no_T:
  "\<forall>(c, a) \<in> set opts. c \<noteq> CHR ''T'' \<Longrightarrow> parse_device_type atoi d opts = d"
  by (induction opts arbitrary: d) auto

lemma parse_device_type_last_T:
  "\<forall>(c, a) \<in> set post. c \<noteq> CHR ''T'' \<Longrightarrow>
   parse_device_type atoi d (pre @ (CHR ''T'', arg) # post) = atoi arg"
  by (induction pre arbitrary: d) (auto simp add: parse_device_type_no_T)

lemma c_atoi_samples:
  "c_atoi ''4525'' = 4525" "c_atoi ''4515'' = 4515" "c_atoi ''MS4525'' = 0"
  "c_atoi ''-1'' = - 1" "c_atoi '' 4525x'' = 4525"
  by (simp_all add: c_atoi_def isspace_def isdigit_def)

text \<open>
  Claim C10. The device type is not validated. When the last \<open>-T\<close> option of the command
  line has the argument \<open>arg\<close>, \<open>main\<close> hands the address \<open>0x28\<close> to the module function if
  \<open>atoi arg\<close> is 4525 and the address \<open>0x46\<close> for every other value, be it 4515, the 0 of a
  string that is no number, or any other integer. Only the value 4525 selects \<open>0x28\<close>; it is
  also the value that a command line with no \<open>-T\<close> option leaves in place.
\<close>

theorem device_type_not_validated:
  assumes "\<forall>(c, a) \<in> set post. c \<noteq> CHR ''T''"
  shows "ms4525_airspeed_main atoi (pre @ (CHR ''T'', arg) # post) (Some ''start'') =
           ModuleStart (if atoi arg = 4525 then 0x28 else 0x46) \<and>
         ms4525_airspeed_main atoi (pre @ (CHR ''T'', arg) # post) (Some ''stop'') =
           ModuleStop (if atoi arg = 4525 then 0x28 else 0x46) \<and>
         ms4525_airspeed_main atoi (pre @ (CHR ''T'', arg) # post) (Some ''status'') =
           ModuleStatus (if atoi arg = 4525 then 0x28 else 0x46) \<and>
         (atoi arg \<noteq> 4525 \<longrightarrow>
            ms4525_airspeed_main atoi (pre @ (CHR ''T'', arg) # post) (Some ''start'') =
              ModuleStart 0x46) \<and>
         (ms4525_airspeed_main atoi (pre @ (CHR ''T'', arg) # post) (Some ''start'') =
            ModuleStart 0x28 \<longleftrightarrow> atoi arg = 4525) \<and>
         ms4525_airspeed_main atoi post (Some ''start'') = ModuleStart 0x28"
proof -
  have last: "parse_device_type atoi 4525 (pre @ (CHR ''T'', arg) # post) = atoi arg"
    using assms by (rule parse_device_type_last_T)
  have none: "parse_device_type atoi 4525 post = 4525"
    using assms by (rule parse_device_type_no_T)
  show ?thesis
    by (simp add: ms4525_airspeed_main_def DEVICE_TYPE_MS4525_def last none
        I2C_ADDRESS_MS4525DO_def I2C_ADDRESS_MS4515DO_def)
qed

theorem device_type_not_validated_witness:
  "c_atoi ''4515'' \<noteq> 4525 \<and> c_atoi ''MS4525'' \<noteq> 4525 \<and> c_atoi ''-1'' \<noteq> 4525 \<and>
   c_atoi ''4525'' = 4525 \<and>
   ms4525_airspeed_main c_atoi [(CHR ''T'', ''4515''), (CHR ''X'', [])] (Some ''start'') =
     ModuleStart 0x46 \<and>
   ms4525_airspeed_main c_atoi [(CHR ''T'', ''MS4525''), (CHR ''X'', [])] (Some ''start'') =
     ModuleStart 0x46 \<and>
   ms4525_airspeed_main c_atoi [(CHR ''T'', ''-1''), (CHR ''X'', [])] (Some ''start'') =
     ModuleStart 0x46 \<and>
   ms4525_airspeed_main c_atoi
     [(CHR ''T'', ''4515''), (CHR ''T'', ''4525''), (CHR ''X'', [])] (Some ''start'') =
     ModuleStart 0x28"
proof -
  have h: "\<forall>(c, a) \<in> set [(CHR ''X'', [])]. c \<noteq> CHR ''T''"
    by simp
  show ?thesis
    using h c_atoi_samples
      device_type_not_validated [OF h, of c_atoi "[]" "''4515''"]
      device_type_not_validated [OF h, of c_atoi "[]" "''MS4525''"]
      device_type_not_validated [OF h, of c_atoi "[]" "''-1''"]
      device_type_not_validated [OF h, of c_atoi "[(CHR ''T'', ''4515'')]" "''4525''"]
    by simp
qed

end
